theory Spec2Isabelle
  imports Main "HOL-Library.Sublist" "HOL-Library.Word" "HOL-Library.AList"
begin

section \<open>Python strings\<close>

text \<open>
  A Python \<open>str\<close> is a sequence of Unicode code points; a code point is a natural number.
  \<open>needle in haystack\<close> on strings is the contiguous-sublist test \<^const>\<open>sublist\<close>.
\<close>

type_synonym ustr = "nat list"

definition ascii :: "string \<Rightarrow> ustr" where
  "ascii s = map of_char s"

definition py_in :: "ustr \<Rightarrow> ustr \<Rightarrow> bool" where
  "py_in needle haystack = sublist needle haystack"

text \<open>The code points for which \<open>str.isspace\<close> holds; \<open>str.strip()\<close> removes them at both ends.\<close>

definition py_isspace :: "nat \<Rightarrow> bool" where
  "py_isspace c \<longleftrightarrow>
     (9 \<le> c \<and> c \<le> 13) \<or> (28 \<le> c \<and> c \<le> 32) \<or> c = 133 \<or> c = 160 \<or> c = 5760 \<or>
     (8192 \<le> c \<and> c \<le> 8202) \<or> c = 8232 \<or> c = 8233 \<or> c = 8239 \<or> c = 8287 \<or> c = 12288"

definition strip :: "ustr \<Rightarrow> ustr" where
  "strip s = rev (dropWhile py_isspace (rev (dropWhile py_isspace s)))"

text \<open>\<open>str(n)\<close> for an integer, as the f-strings format a process id.\<close>

fun dec_nat :: "nat \<Rightarrow> ustr" where
  "dec_nat n = (if n < 10 then [48 + n] else dec_nat (n div 10) @ [48 + n mod 10])"

declare dec_nat.simps [simp del]

definition str_int :: "int \<Rightarrow> ustr" where
  "str_int i = (if i < 0 then 45 # dec_nat (nat (- i)) else dec_nat (nat i))"

text \<open>
  \<open>str.lower\<close> follows the Unicode case tables of the interpreter (one code point may become
  two); the functions below take it from the platform. On ASCII text it is this function.
\<close>

definition ascii_lower :: "ustr \<Rightarrow> ustr" where
  "ascii_lower s = map (\<lambda>c. if 65 \<le> c \<and> c \<le> 90 then c + 32 else c) s"

text \<open>The value of a ctypes wide-character buffer: the characters before the first NUL.\<close>

definition buffer_value :: "ustr \<Rightarrow> ustr" where
  "buffer_value buf = takeWhile (\<lambda>c. c \<noteq> 0) buf"

definition create_unicode_buffer :: "nat \<Rightarrow> ustr" where
  "create_unicode_buffer n = replicate n 0"


section \<open>Windows structures and the console of the process\<close>

record COORD =
  X :: "16 word"
  Y :: "16 word"

text \<open>Of \<open>CONSOLE_SCREEN_BUFFER_INFO\<close> only \<open>dwSize\<close> is ever read.\<close>

record CONSOLE_SCREEN_BUFFER_INFO =
  dwSize :: COORD

datatype py_error = ZeroDivisionError | AttributeError | OSError | KeyError

text \<open>
  What the operating system reports about the console of one process once the watchdog is
  attached to it: the string \<open>GetConsoleTitleW\<close> leaves in the title buffer, the result of
  \<open>GetConsoleWindow\<close>, the structure filled by \<open>GetConsoleScreenBufferInfo\<close> (\<open>None\<close> when
  that call fails), the character cells of the screen buffer row by row, and whether
  \<open>ReadConsoleOutputCharacterW\<close> succeeds.
\<close>

record console_info =
  title_value :: ustr
  console_window :: int
  screen_buffer_info :: "CONSOLE_SCREEN_BUFFER_INFO option"
  cells :: ustr
  read_succeeds :: bool

text \<open>\<open>kernel32\<close> as seen by the watchdog: the consoles it can attach to, by process id.\<close>

type_synonym kernel32 = "int \<Rightarrow> console_info option"

datatype console = Original | Console_of int

record process =
  attached :: "console option"
  sys_stdout :: "console option"
  sys_stderr :: "console option"

definition FreeConsole :: "process \<Rightarrow> process" where
  "FreeConsole p = p\<lparr>attached := None\<rparr>"

text \<open>
  \<open>AttachConsole\<close> fails while the process still has a console, and for a process without
  a console. The argument \<open>-1\<close> stands for the parent process, whose console is the one the
  watchdog was started in.
\<close>

definition AttachConsole :: "kernel32 \<Rightarrow> int \<Rightarrow> process \<Rightarrow> bool \<times> process" where
  "AttachConsole k pid p =
     (if attached p \<noteq> None then (False, p)
      else if pid = - 1 then (True, p\<lparr>attached := Some Original\<rparr>)
      else (case k pid of
              None \<Rightarrow> (False, p)
            | Some _ \<Rightarrow> (True, p\<lparr>attached := Some (Console_of pid)\<rparr>)))"

text \<open>
  \<open>ReadConsoleOutputCharacterW\<close> copies at most \<open>n\<close> consecutive cells from the read
  coordinate on; the cell in column \<open>x\<close> of row \<open>y\<close> has index \<open>y * width + x\<close>.
\<close>

definition ReadConsoleOutputCharacterW :: "console_info \<Rightarrow> int \<Rightarrow> nat \<Rightarrow> COORD \<Rightarrow> ustr option" where
  "ReadConsoleOutputCharacterW info width n read_coord =
     (let x = sint (X read_coord); y = sint (Y read_coord) in
      if read_succeeds info \<and> 0 \<le> x \<and> 0 \<le> y
      then Some (take n (drop (nat (y * width + x)) (cells info)))
      else None)"

text \<open>\<open>open("CONOUT$", "w")\<close> opens the console the process is attached to.\<close>

definition open_conout :: "process \<Rightarrow> py_error + console" where
  "open_conout p = (case attached p of None \<Rightarrow> Inl OSError | Some c \<Rightarrow> Inr c)"


section \<open>read_console_buffer\<close>

definition read_len :: nat where
  "read_len = 8000"

definition start_idx :: "int \<Rightarrow> int \<Rightarrow> int" where
  "start_idx width height = max 0 (width * height - int read_len)"

text \<open>Lines 105 to 121: the text read from the bottom of the screen buffer.\<close>

definition read_content :: "console_info \<Rightarrow> py_error + ustr" where
  "read_content info =
     (case screen_buffer_info info of
        None \<Rightarrow> Inr []
      | Some csbi \<Rightarrow>
          (let width = sint (X (dwSize csbi));
               height = sint (Y (dwSize csbi))
           in if width = 0 then Inl ZeroDivisionError
              else
                (let start_y = start_idx width height div width;
                     start_x = start_idx width height mod width;
                     read_coord = \<lparr>X = word_of_int start_x, Y = word_of_int start_y\<rparr>;
                     buffer = create_unicode_buffer read_len
                 in case ReadConsoleOutputCharacterW info width read_len read_coord of
                      None \<Rightarrow> Inr []
                    | Some chars \<Rightarrow> Inr (buffer_value (chars @ drop (length chars) buffer)))))"

text \<open>Restoring \<open>sys.stdout\<close> and \<open>sys.stderr\<close>, then returning \<open>r\<close>.\<close>

definition restore_streams :: "'a \<Rightarrow> process \<Rightarrow> (py_error + 'a) \<times> process" where
  "restore_streams r p =
     (case open_conout p of
        Inl e \<Rightarrow> (Inl e, p)
      | Inr c1 \<Rightarrow>
          (let p1 = p\<lparr>sys_stdout := Some c1\<rparr> in
           case open_conout p1 of
             Inl e \<Rightarrow> (Inl e, p1)
           | Inr c2 \<Rightarrow> (Inr r, p1\<lparr>sys_stderr := Some c2\<rparr>)))"

text \<open>
  The result is \<open>Inr (Some (window_title, content, hwnd))\<close>, \<open>Inr None\<close> for the triple
  \<open>(None, None, None)\<close>, or \<open>Inl e\<close> when the call leaves by an exception. The second
  component is the process as the call leaves it. (A process id is never \<open>-1\<close>; the branch
  for a successful attach without console data exists only to keep the function total.)
\<close>

definition read_console_buffer ::
  "kernel32 \<Rightarrow> int \<Rightarrow> process \<Rightarrow> (py_error + (ustr \<times> ustr \<times> int) option) \<times> process" where
  "read_console_buffer k pid p0 =
     (let p1 = FreeConsole p0 in
      case AttachConsole k pid p1 of
        (True, p2) \<Rightarrow>
          (case k pid of
             None \<Rightarrow> (Inl OSError, p2)
           | Some info \<Rightarrow>
               (let window_title = title_value info;
                    h = console_window info
                in case read_content info of
                     Inl e \<Rightarrow> (Inl e, p2)
                   | Inr content \<Rightarrow>
                       (let p3 = FreeConsole p2;
                            p4 = snd (AttachConsole k (- 1) p3)
                        in restore_streams (Some (window_title, content, h)) p4)))
      | (False, p2) \<Rightarrow>
          (let p3 = snd (AttachConsole k (- 1) p2)
           in restore_streams None p3))"


section \<open>The platform and the observable effects\<close>

text \<open>
  Everything the script takes from the interpreter and the operating system: \<open>str.lower\<close>,
  the text of an exception, the consoles, the foreground window, the process id of the
  watchdog, and whether the notification library raises (\<open>Some\<close> the text of its exception).
\<close>

record platform =
  str_lower :: "ustr \<Rightarrow> ustr"
  str_exc :: "py_error \<Rightarrow> ustr"
  consoles :: kernel32
  GetForegroundWindow :: int
  IsIconic :: "int \<Rightarrow> bool"
  GetWindowTextW :: "int \<Rightarrow> ustr"
  getpid :: int
  notify_raises :: "ustr \<Rightarrow> ustr \<Rightarrow> ustr option"

text \<open>
  The effects of the script: the console state of its process, the lines it printed through
  \<open>log\<close> (oldest first, without the timestamp), and the calls of \<open>notification.notify\<close>
  with title, message, application name and timeout.
\<close>

record world =
  proc :: process
  printed :: "ustr list"
  notify_calls :: "(ustr \<times> ustr \<times> ustr \<times> nat) list"

definition log :: "ustr \<Rightarrow> world \<Rightarrow> world" where
  "log msg w = w\<lparr>printed := printed w @ [msg]\<rparr>"

text \<open>The truth value of a window handle: \<open>None\<close> and \<open>0\<close> are false.\<close>

definition truthy :: "int option \<Rightarrow> bool" where
  "truthy h = (case h of None \<Rightarrow> False | Some v \<Rightarrow> v \<noteq> 0)"

definition is_window_active :: "platform \<Rightarrow> int option \<Rightarrow> bool" where
  "is_window_active E h =
     (case h of
        None \<Rightarrow> False
      | Some v \<Rightarrow>
          if v = 0 then False
          else
            (let foreground_hwnd = GetForegroundWindow E in
             if v = foreground_hwnd then \<not> IsIconic E v
             else
               (let fg_title = str_lower E (GetWindowTextW E foreground_hwnd) in
                if py_in (ascii ''gemini'') fg_title \<or> py_in [9671] fg_title \<or> py_in [10022] fg_title
                then \<not> IsIconic E foreground_hwnd
                else False)))"

definition show_notification :: "platform \<Rightarrow> ustr \<Rightarrow> ustr \<Rightarrow> int option \<Rightarrow> world \<Rightarrow> world" where
  "show_notification E title message h w =
     (if truthy h \<and> is_window_active E h then w
      else
        (let w1 = log (ascii ''NOTIFICATION: '' @ title @ ascii '' - '' @ message) w;
             w2 = w1\<lparr>notify_calls := notify_calls w1 @ [(title, message, ascii ''Gemini CLI'', 5)]\<rparr>
         in case notify_raises E title message of
              None \<Rightarrow> w2
            | Some e \<Rightarrow> log (ascii ''Notification Failed: '' @ e) w2))"


section \<open>Targets\<close>

datatype state = Unknown | Working | AwaitingInput | HighDemand | Ready

record target =
  state :: state
  hwnd :: int

text \<open>
  The dictionary \<open>targets\<close>, in insertion order: \<^const>\<open>AList.update\<close> overwrites a key in
  place and appends a new one, as a Python \<open>dict\<close> does.
\<close>

type_synonym targets = "(int \<times> target) list"

definition tracked_hwnds :: "targets \<Rightarrow> int set" where
  "tracked_hwnds ts = set (filter (\<lambda>v. v \<noteq> 0) (map (\<lambda>(pid, info). hwnd info) ts))"


section \<open>Step 3: discovery\<close>

definition is_gemini_title :: "platform \<Rightarrow> ustr \<Rightarrow> bool" where
  "is_gemini_title E title =
     (let title_lower = str_lower E title in
      title \<noteq> [] \<and>
      (py_in (ascii ''gemini'') title_lower \<or>
       py_in (ascii ''gemini-cli'') title_lower \<or>
       py_in (ascii ''dist'' @ [92] @ ascii ''index.js'') title_lower \<or>
       py_in [9671] title \<or>
       py_in [10022] title))"

text \<open>
  One iteration of the loop over the candidates. Every exception inside the \<open>try\<close> is
  swallowed: one raised by \<open>read_console_buffer\<close>, and the \<open>AttributeError\<close> of
  \<open>title.lower()\<close> when the read gave \<open>(None, None, None)\<close>.
\<close>

definition discover_candidate ::
  "platform \<Rightarrow> int \<Rightarrow> targets \<times> int set \<times> world \<Rightarrow> targets \<times> int set \<times> world" where
  "discover_candidate E pid st =
     (case st of (ts, tracked, w) \<Rightarrow>
        if pid = getpid E then st
        else
          (case read_console_buffer (consoles E) pid (proc w) of
             (Inl e, p) \<Rightarrow> (ts, tracked, w\<lparr>proc := p\<rparr>)
           | (Inr None, p) \<Rightarrow> (ts, tracked, w\<lparr>proc := p\<rparr>)
           | (Inr (Some (title, content, h)), p) \<Rightarrow>
               if h \<noteq> 0 \<and> h \<in> tracked then (ts, tracked, w\<lparr>proc := p\<rparr>)
               else if is_gemini_title E title
               then (AList.update pid \<lparr>state = Unknown, hwnd = h\<rparr> ts, insert h tracked, w\<lparr>proc := p\<rparr>)
               else (ts, tracked, w\<lparr>proc := p\<rparr>)))"

definition discover :: "platform \<Rightarrow> int list \<Rightarrow> targets \<times> world \<Rightarrow> targets \<times> world" where
  "discover E candidates tw =
     (case fold (discover_candidate E) candidates (fst tw, tracked_hwnds (fst tw), snd tw) of
        (ts, tracked, w) \<Rightarrow> (ts, w))"


section \<open>Step 4: classification\<close>

definition awaiting_input_in :: "ustr \<Rightarrow> bool" where
  "awaiting_input_in s \<longleftrightarrow>
     py_in (ascii ''Interactive shell awaiting input'') s \<or>
     py_in (ascii ''Action Required'') s \<or>
     py_in (ascii ''Press tab to focus shell'') s"

definition high_demand_in :: "ustr \<Rightarrow> bool" where
  "high_demand_in s \<longleftrightarrow> py_in (ascii ''Keep trying'') s \<and> py_in (ascii ''Stop'') s"

definition working_in :: "ustr \<Rightarrow> bool" where
  "working_in title \<longleftrightarrow> py_in (ascii ''Working'') title \<or> py_in [10022] title"

definition ready_in :: "ustr \<Rightarrow> bool" where
  "ready_in title \<longleftrightarrow> py_in (ascii ''Ready'') title \<or> py_in [9671] title"

definition msg_action_required :: "int \<Rightarrow> ustr" where
  "msg_action_required pid = ascii ''Action Required (PID '' @ str_int pid @ ascii '')! '' @ [9995]"

definition msg_high_demand :: "int \<Rightarrow> ustr" where
  "msg_high_demand pid =
     ascii ''Task Failed - High Demand (PID '' @ str_int pid @ ascii '') '' @ [9888, 65039]"

definition msg_finished :: "int \<Rightarrow> ustr" where
  "msg_finished pid = ascii ''Task Finished (PID '' @ str_int pid @ ascii '') '' @ [9989]"

text \<open>
  The statements a branch of the classifier executes, in order: a call of
  \<open>show_notification\<close> or the assignment \<open>targets[pid]['state'] = s\<close>.
\<close>

datatype action = Show_notification ustr ustr int | Set_state state

text \<open>Lines 205 to 232: the statements executed for one target.\<close>

definition classify :: "int \<Rightarrow> ustr \<Rightarrow> ustr \<Rightarrow> int \<Rightarrow> state \<Rightarrow> action list" where
  "classify pid title content h last_state =
     (if content \<noteq> [] then
        (let clean_content = strip content in
         if awaiting_input_in clean_content then
           (if last_state \<noteq> AwaitingInput
            then [Show_notification (ascii ''Gemini CLI'') (msg_action_required pid) h,
                  Set_state AwaitingInput]
            else [])
         else if high_demand_in clean_content then
           (if last_state \<noteq> HighDemand
            then [Show_notification (ascii ''Gemini CLI'') (msg_high_demand pid) h,
                  Set_state HighDemand]
            else [])
         else if working_in title then
           (if last_state \<noteq> Working then [Set_state Working] else [])
         else if ready_in title then
           (if last_state = Working \<or> last_state = AwaitingInput
            then [Show_notification (ascii ''Gemini CLI'') (msg_finished pid) h,
                  Set_state Ready]
            else [])
         else [])
      else [])"

fun run_action :: "platform \<Rightarrow> int \<Rightarrow> action \<Rightarrow> targets \<times> world \<Rightarrow> targets \<times> world" where
  "run_action E pid (Show_notification title message h) (ts, w) =
     (ts, show_notification E title message (Some h) w)"
| "run_action E pid (Set_state s) (ts, w) =
     (AList.map_entry pid (\<lambda>info. info\<lparr>state := s\<rparr>) ts, w)"

definition run_actions :: "platform \<Rightarrow> int \<Rightarrow> action list \<Rightarrow> targets \<times> world \<Rightarrow> targets \<times> world" where
  "run_actions E pid acts tw = fold (run_action E pid) acts tw"

text \<open>Lines 203 to 232 for one target, once its console has been read.\<close>

definition classify_target ::
  "platform \<Rightarrow> int \<Rightarrow> ustr \<Rightarrow> ustr \<Rightarrow> int \<Rightarrow> targets \<times> world \<Rightarrow> targets \<times> world" where
  "classify_target E pid title content h tw =
     (case map_of (fst tw) pid of
        None \<Rightarrow> (fst tw, log (ascii ''Error checking PID '' @ str_int pid @ ascii '': '' @ str_exc E KeyError) (snd tw))
      | Some info \<Rightarrow> run_actions E pid (classify pid title content h (state info)) tw)"

text \<open>One iteration of the loop over the targets (lines 199 to 235).\<close>

definition check_target :: "platform \<Rightarrow> int \<Rightarrow> targets \<times> world \<Rightarrow> targets \<times> world" where
  "check_target E pid tw =
     (case read_console_buffer (consoles E) pid (proc (snd tw)) of
        (Inl e, p) \<Rightarrow>
          (fst tw, log (ascii ''Error checking PID '' @ str_int pid @ ascii '': '' @ str_exc E e)
                     ((snd tw)\<lparr>proc := p\<rparr>))
      | (Inr None, p) \<Rightarrow> (fst tw, (snd tw)\<lparr>proc := p\<rparr>)
      | (Inr (Some (title, content, h)), p) \<Rightarrow>
          classify_target E pid title content h (fst tw, (snd tw)\<lparr>proc := p\<rparr>))"

definition monitor :: "platform \<Rightarrow> targets \<times> world \<Rightarrow> targets \<times> world" where
  "monitor E tw = fold (check_target E) (map fst (fst tw)) tw"

text \<open>What a list of executed statements did: the state it leaves and the notifications it raised.\<close>

definition state_after :: "action list \<Rightarrow> state \<Rightarrow> state" where
  "state_after acts s = fold (\<lambda>a r. case a of Set_state s' \<Rightarrow> s' | Show_notification _ _ _ \<Rightarrow> r) acts s"

definition state_writes :: "action list \<Rightarrow> state list" where
  "state_writes acts = concat (map (\<lambda>a. case a of Set_state s' \<Rightarrow> [s'] | Show_notification _ _ _ \<Rightarrow> []) acts)"

definition notifications :: "action list \<Rightarrow> (ustr \<times> ustr \<times> int) list" where
  "notifications acts =
     concat (map (\<lambda>a. case a of Show_notification t m h \<Rightarrow> [(t, m, h)] | Set_state _ \<Rightarrow> []) acts)"


section \<open>Concrete consoles for the examples\<close>

text \<open>
  The consoles of the examples: one whose title carries the working marker and whose screen
  buffer cannot be read; one with an unrelated title and the word gemini on its screen; one
  reporting a screen buffer zero columns wide; one without a console window whose title
  names the CLI; and one of 100 columns and 90 rows filled with spaces.
\<close>

definition working_console :: console_info where
  "working_console =
     \<lparr>title_value = 10022 # ascii '' Working'', console_window = 77,
      screen_buffer_info = None, cells = [], read_succeeds = False\<rparr>"

definition shell_console :: console_info where
  "shell_console =
     \<lparr>title_value = ascii ''cmd'', console_window = 88,
      screen_buffer_info = Some \<lparr>dwSize = \<lparr>X = 10, Y = 1\<rparr>\<rparr>,
      cells = ascii ''gemini    '', read_succeeds = True\<rparr>"

definition zero_width_console :: console_info where
  "zero_width_console =
     \<lparr>title_value = 10022 # ascii '' Working'', console_window = 99,
      screen_buffer_info = Some \<lparr>dwSize = \<lparr>X = 0, Y = 0\<rparr>\<rparr>,
      cells = [], read_succeeds = True\<rparr>"

definition windowless_console :: console_info where
  "windowless_console =
     \<lparr>title_value = ascii ''Gemini'', console_window = 0,
      screen_buffer_info = None, cells = [], read_succeeds = False\<rparr>"

definition full_console :: console_info where
  "full_console =
     \<lparr>title_value = ascii ''cmd'', console_window = 55,
      screen_buffer_info = Some \<lparr>dwSize = \<lparr>X = 100, Y = 90\<rparr>\<rparr>,
      cells = replicate 9000 32, read_succeeds = True\<rparr>"

definition example_consoles :: kernel32 where
  "example_consoles pid =
     (if pid = 4242 then Some working_console
      else if pid = 4343 then Some shell_console
      else if pid = 4444 then Some zero_width_console
      else if pid = 4545 \<or> pid = 4546 then Some windowless_console
      else None)"

definition example_platform :: platform where
  "example_platform =
     \<lparr>str_lower = ascii_lower, str_exc = (\<lambda>e. ascii ''error''), consoles = example_consoles,
      GetForegroundWindow = 77, IsIconic = (\<lambda>h. False), GetWindowTextW = (\<lambda>h. ascii ''Editor''),
      getpid = 1, notify_raises = (\<lambda>t m. None)\<rparr>"

definition example_process :: process where
  "example_process =
     \<lparr>attached = Some Original, sys_stdout = Some Original, sys_stderr = Some Original\<rparr>"

definition example_world :: world where
  "example_world = \<lparr>proc = example_process, printed = [], notify_calls = []\<rparr>"

text \<open>
  A screen buffer that cannot be read although the attach succeeded: either
  \<open>GetConsoleScreenBufferInfo\<close> fails, or it reports a width other than zero and
  \<open>ReadConsoleOutputCharacterW\<close> fails.
\<close>

definition buffer_read_failure :: "console_info \<Rightarrow> bool" where
  "buffer_read_failure info =
     (case screen_buffer_info info of
        None \<Rightarrow> True
      | Some csbi \<Rightarrow> sint (X (dwSize csbi)) \<noteq> 0 \<and> \<not> read_succeeds info)"


section \<open>Strings: markers survive \<open>strip\<close>\<close>

lemma sublist_dropWhile_iff:
  assumes "m \<noteq> []" and "\<not> P (hd m)"
  shows "sublist m (dropWhile P s) = sublist m s"
proof (induction s)
  case Nil
  then show ?case by simp
next
  case (Cons a s)
  show ?case
  proof (cases "P a")
    case True
    with assms have "\<not> prefix m (a # s)"
      by (cases m) auto
    with True Cons show ?thesis
      by (simp add: sublist_Cons_right)
  next
    case False
    then show ?thesis by simp
  qed
qed

lemma py_in_strip:
  assumes "m \<noteq> []" and "\<not> py_isspace (hd m)" and "\<not> py_isspace (last m)"
  shows "py_in m (strip s) = py_in m s"
proof -
  have r: "rev m \<noteq> []" "\<not> py_isspace (hd (rev m))"
    using assms by (simp_all add: hd_rev)
  have "sublist m (strip s) = sublist (rev m) (dropWhile py_isspace (rev (dropWhile py_isspace s)))"
    by (simp add: strip_def sublist_rev_right)
  also have "\<dots> = sublist (rev m) (rev (dropWhile py_isspace s))"
    using r by (simp add: sublist_dropWhile_iff)
  also have "\<dots> = sublist m (dropWhile py_isspace s)"
    by simp
  also have "\<dots> = sublist m s"
    using assms by (simp add: sublist_dropWhile_iff)
  finally show ?thesis by (simp add: py_in_def)
qed

lemma awaiting_input_in_strip: "awaiting_input_in (strip s) = awaiting_input_in s"
  unfolding awaiting_input_in_def
  by (simp add: py_in_strip ascii_def py_isspace_def)

lemma high_demand_in_strip: "high_demand_in (strip s) = high_demand_in s"
  unfolding high_demand_in_def
  by (simp add: py_in_strip ascii_def py_isspace_def)

lemma awaiting_input_in_nonempty: "awaiting_input_in s \<Longrightarrow> s \<noteq> []"
  by (auto simp: awaiting_input_in_def py_in_def ascii_def)

lemma high_demand_in_nonempty: "high_demand_in s \<Longrightarrow> s \<noteq> []"
  by (auto simp: high_demand_in_def py_in_def ascii_def)

lemma classify_chain:
  "classify pid title content h last_state =
     (if content = [] then []
      else if awaiting_input_in content then
        (if last_state \<noteq> AwaitingInput
         then [Show_notification (ascii ''Gemini CLI'') (msg_action_required pid) h, Set_state AwaitingInput]
         else [])
      else if high_demand_in content then
        (if last_state \<noteq> HighDemand
         then [Show_notification (ascii ''Gemini CLI'') (msg_high_demand pid) h, Set_state HighDemand]
         else [])
      else if working_in title then (if last_state \<noteq> Working then [Set_state Working] else [])
      else if ready_in title then
        (if last_state = Working \<or> last_state = AwaitingInput
         then [Show_notification (ascii ''Gemini CLI'') (msg_finished pid) h, Set_state Ready]
         else [])
      else [])"
  by (simp add: classify_def awaiting_input_in_strip high_demand_in_strip)


section \<open>The console read and the execution of a branch\<close>

lemma buffer_value_padding:
  "buffer_value (chars @ drop (length chars) (create_unicode_buffer n)) = buffer_value chars"
proof -
  have "takeWhile (\<lambda>c. c \<noteq> 0) (xs @ replicate m (0::nat)) = takeWhile (\<lambda>c. c \<noteq> 0) xs" for xs m
    by (induction xs) auto
  then show ?thesis
    by (simp add: buffer_value_def create_unicode_buffer_def)
qed

lemma buffer_value_no_nul: "0 \<notin> set s \<Longrightarrow> buffer_value s = s"
  by (induction s) (auto simp: buffer_value_def)

lemma read_console_buffer_no_console:
  assumes "k pid = None" and "pid \<noteq> - 1"
  shows "read_console_buffer k pid p =
           (Inr None, p\<lparr>attached := Some Original, sys_stdout := Some Original, sys_stderr := Some Original\<rparr>)"
  using assms
  by (simp add: read_console_buffer_def FreeConsole_def AttachConsole_def restore_streams_def open_conout_def)

lemma read_console_buffer_console:
  assumes "k pid = Some info"
  shows "read_console_buffer k pid p =
           (case read_content info of
              Inl e \<Rightarrow> (Inl e, p\<lparr>attached := Some (if pid = - 1 then Original else Console_of pid)\<rparr>)
            | Inr content \<Rightarrow>
                (Inr (Some (title_value info, content, console_window info)),
                 p\<lparr>attached := Some Original, sys_stdout := Some Original, sys_stderr := Some Original\<rparr>))"
proof (cases "pid = - 1")
  case True
  with assms have "k (- 1) = Some info" by simp
  with True show ?thesis
    by (simp add: read_console_buffer_def FreeConsole_def AttachConsole_def restore_streams_def
        open_conout_def split: sum.splits)
next
  case False
  with assms show ?thesis
    by (simp add: read_console_buffer_def FreeConsole_def AttachConsole_def restore_streams_def
        open_conout_def split: sum.splits)
qed

lemma run_actions_Nil: "run_actions E pid [] tw = tw"
  by (simp add: run_actions_def)

lemma run_actions_Cons: "run_actions E pid (a # acts) tw = run_actions E pid acts (run_action E pid a tw)"
  by (simp add: run_actions_def)

lemma state_after_Cons:
  "state_after (Set_state s' # acts) s = state_after acts s'"
  "state_after (Show_notification t m h # acts) s = state_after acts s"
  "state_after [] s = s"
  by (simp_all add: state_after_def)

lemma run_actions_state:
  "map_of (fst (run_actions E pid acts (ts, w))) pid =
     map_option (\<lambda>info. info\<lparr>state := state_after acts (state info)\<rparr>) (map_of ts pid)"
proof (induction acts arbitrary: ts w)
  case Nil
  show ?case
    by (cases "map_of ts pid") (simp_all add: run_actions_Nil state_after_Cons)
next
  case (Cons a acts)
  show ?case
  proof (cases a)
    case (Show_notification t m h)
    then show ?thesis
      using Cons.IH [of ts "show_notification E t m (Some h) w"]
      by (simp add: run_actions_Cons state_after_Cons)
  next
    case (Set_state s)
    then show ?thesis
      using Cons.IH [of "AList.map_entry pid (\<lambda>info. info\<lparr>state := s\<rparr>) ts" w]
      by (cases "map_of ts pid") (simp_all add: run_actions_Cons state_after_Cons map_of_map_entry)
  qed
qed

lemma classify_target_state:
  assumes "map_of ts pid = Some info"
  shows "map_of (fst (classify_target E pid title content h (ts, w))) pid =
           Some (info\<lparr>state := state_after (classify pid title content h (state info)) (state info)\<rparr>)"
  using assms by (simp add: classify_target_def run_actions_state)

section \<open>Classifier precedence\<close>

text \<open>
  C1. Whenever the screen tail contains an AwaitingInput marker and the title contains a
  Working marker, the target ends in state AwaitingInput and is never set to Working: the
  statements executed are those of the AwaitingInput rule alone. The last conjunct is the
  order of the rules on the unstripped content, for every input: AwaitingInput, then
  HighDemand, then Working, then Ready, the first rule whose marker is present deciding
  (all four sit under the test that the content is not empty).
\<close>

theorem awaiting_input_precedes_working:
  assumes "awaiting_input_in content" and "working_in title" and "map_of ts pid = Some info"
  shows "classify pid title content h last_state =
           (if last_state \<noteq> AwaitingInput
            then [Show_notification (ascii ''Gemini CLI'') (msg_action_required pid) h,
                  Set_state AwaitingInput]
            else [])
         \<and> state_after (classify pid title content h last_state) last_state = AwaitingInput
         \<and> Set_state Working \<notin> set (classify pid title content h last_state)
         \<and> map_option state (map_of (fst (classify_target E pid title content h (ts, w))) pid)
             = Some AwaitingInput
         \<and> classify pid t c h s =
             (if c = [] then []
              else if awaiting_input_in c then
                (if s \<noteq> AwaitingInput
                 then [Show_notification (ascii ''Gemini CLI'') (msg_action_required pid) h,
                       Set_state AwaitingInput]
                 else [])
              else if high_demand_in c then
                (if s \<noteq> HighDemand
                 then [Show_notification (ascii ''Gemini CLI'') (msg_high_demand pid) h,
                       Set_state HighDemand]
                 else [])
              else if working_in t then (if s \<noteq> Working then [Set_state Working] else [])
              else if ready_in t then
                (if s = Working \<or> s = AwaitingInput
                 then [Show_notification (ascii ''Gemini CLI'') (msg_finished pid) h,
                       Set_state Ready]
                 else [])
              else [])"
proof -
  have ne: "content \<noteq> []"
    using assms(1) by (rule awaiting_input_in_nonempty)
  have rule1: "classify pid title content h x =
           (if x \<noteq> AwaitingInput
            then [Show_notification (ascii ''Gemini CLI'') (msg_action_required pid) h,
                  Set_state AwaitingInput]
            else [])" for x
    using assms(1) ne by (simp add: classify_chain)
  have after: "state_after (classify pid title content h x) x = AwaitingInput" for x
    by (simp add: rule1 state_after_Cons)
  have no_working: "Set_state Working \<notin> set (classify pid title content h last_state)"
    by (simp add: rule1)
  have target: "map_option state (map_of (fst (classify_target E pid title content h (ts, w))) pid)
                  = Some AwaitingInput"
    using assms(3) by (simp add: classify_target_state after)
  show ?thesis
    using rule1 after no_working target classify_chain [of pid t c h s] by simp
qed

theorem awaiting_input_precedes_working_witness:
  "awaiting_input_in (ascii ''Action Required'')
   \<and> working_in (10022 # ascii '' Working'')
   \<and> classify 4242 (10022 # ascii '' Working'') (ascii ''Action Required'') 77 Working =
       [Show_notification (ascii ''Gemini CLI'') (msg_action_required 4242) 77, Set_state AwaitingInput]
   \<and> map_option state (map_of (fst (classify_target example_platform 4242
        (10022 # ascii '' Working'') (ascii ''Action Required'') 77
        ([(4242, \<lparr>state = Working, hwnd = 77\<rparr>)], example_world))) 4242) = Some AwaitingInput"
proof -
  have a: "awaiting_input_in (ascii ''Action Required'')"
    by (simp add: awaiting_input_in_def py_in_def ascii_def)
  have b: "working_in (10022 # ascii '' Working'')"
    by (simp add: working_in_def py_in_def ascii_def sublist_Cons_right)
  have c: "map_of [(4242::int, \<lparr>state = Working, hwnd = 77\<rparr>)] 4242 = Some \<lparr>state = Working, hwnd = 77\<rparr>"
    by simp
  show ?thesis
    using a b awaiting_input_precedes_working [OF a b c, of 77 Working example_platform example_world "[]" "[]" Unknown]
    by simp
qed

section \<open>The Ready rule\<close>

lemma msg_finished_distinct:
  "msg_finished pid \<noteq> msg_action_required pid'"
  "msg_finished pid \<noteq> msg_high_demand pid'"
  by (simp_all add: msg_finished_def msg_action_required_def msg_high_demand_def ascii_def)

text \<open>
  C5. For every target whose title contains a Ready marker, whatever the screen shows: the
  classifier writes Ready and raises Task Finished only if the current state is Working
  or AwaitingInput. From Unknown, Ready or HighDemand it never writes Ready and never
  raises Task Finished; and where the Ready rule is the one reached (no AwaitingInput or
  HighDemand marker on the screen, no Working marker in the title) it executes nothing,
  so no notification fires and the state is left unchanged. From Working or AwaitingInput,
  once the Ready rule is reached on content that is not empty, it raises Task Finished
  and writes Ready.
\<close>

theorem ready_rule:
  assumes "ready_in title"
    and "quiet = Unknown \<or> quiet = Ready \<or> quiet = HighDemand"
    and "busy = Working \<or> busy = AwaitingInput"
    and "Set_state Ready \<in> set (classify pid t c h s)
         \<or> Show_notification (ascii ''Gemini CLI'') (msg_finished pid) h \<in> set (classify pid t c h s)"
  shows "Set_state Ready \<notin> set (classify pid title content h quiet)
         \<and> (\<forall>m v. Show_notification m (msg_finished pid) v \<notin> set (classify pid title content h quiet))
         \<and> (\<not> awaiting_input_in content \<and> \<not> high_demand_in content \<and> \<not> working_in title
              \<longrightarrow> classify pid title content h quiet = [])
         \<and> (\<not> awaiting_input_in content \<and> \<not> high_demand_in content \<and> \<not> working_in title
              \<and> content \<noteq> []
              \<longrightarrow> classify pid title content h busy =
                    [Show_notification (ascii ''Gemini CLI'') (msg_finished pid) h, Set_state Ready])
         \<and> (s = Working \<or> s = AwaitingInput)"
proof -
  have no_write: "Set_state Ready \<notin> set (classify pid title content h quiet)"
    using assms(2) by (auto simp: classify_chain)
  have no_finished: "Show_notification m (msg_finished pid) v \<notin> set (classify pid title content h quiet)"
    for m v
    using assms(2) msg_finished_distinct [of pid pid]
    by (auto simp: classify_chain split: if_splits)
  have silent: "classify pid title content h quiet = []"
    if "\<not> awaiting_input_in content \<and> \<not> high_demand_in content \<and> \<not> working_in title"
    using that assms(2) by (auto simp: classify_chain)
  have fires: "classify pid title content h busy =
                 [Show_notification (ascii ''Gemini CLI'') (msg_finished pid) h, Set_state Ready]"
    if "\<not> awaiting_input_in content \<and> \<not> high_demand_in content \<and> \<not> working_in title
        \<and> content \<noteq> []"
    using that assms(1,3) by (auto simp: classify_chain)
  have only: "s = Working \<or> s = AwaitingInput"
    using assms(4) msg_finished_distinct [of pid pid]
    by (auto simp: classify_chain split: if_splits)
  show ?thesis
    using no_write no_finished silent fires only by blast
qed

theorem ready_rule_witness:
  "ready_in (9671 # ascii '' Ready'')
   \<and> classify 4242 (9671 # ascii '' Ready'') (ascii ''done'') 77 Unknown = []
   \<and> classify 4242 (9671 # ascii '' Ready'') (ascii ''done'') 77 Working =
       [Show_notification (ascii ''Gemini CLI'') (msg_finished 4242) 77, Set_state Ready]
   \<and> Set_state Ready \<notin> set (classify 4242 (9671 # ascii '' Ready'') (ascii ''done'') 77 Unknown)"
proof -
  have a: "ready_in (9671 # ascii '' Ready'')"
    by (simp add: ready_in_def py_in_def ascii_def sublist_Cons_right)
  have b: "\<not> awaiting_input_in (ascii ''done'')"
    by (simp add: awaiting_input_in_def py_in_def ascii_def sublist_code)
  have c: "\<not> high_demand_in (ascii ''done'')"
    by (simp add: high_demand_in_def py_in_def ascii_def sublist_code)
  have d: "\<not> working_in (9671 # ascii '' Ready'')"
    by (simp add: working_in_def py_in_def ascii_def sublist_code)
  have e: "ascii ''done'' \<noteq> []"
    by (simp add: ascii_def)
  have f: "Unknown = Unknown \<or> Unknown = Ready \<or> Unknown = HighDemand"
    by simp
  have g: "Working = Working \<or> Working = AwaitingInput"
    by simp
  have h: "Set_state Ready \<in> set (classify 4242 (9671 # ascii '' Ready'') (ascii ''done'') 77 Working)
           \<or> Show_notification (ascii ''Gemini CLI'') (msg_finished 4242) 77
               \<in> set (classify 4242 (9671 # ascii '' Ready'') (ascii ''done'') 77 Working)"
    using a b c d e by (simp add: classify_chain)
  show ?thesis
    using a b c d e ready_rule [OF a f g h, where content = "ascii ''done''"] by simp
qed

section \<open>No repeated notification\<close>

lemma classify_idempotent:
  "classify pid title content h (state_after (classify pid title content h s) s) = []"
  by (cases s) (simp_all add: classify_chain state_after_Cons)

text \<open>
  C6. Classification raises no notification twice. A target in state AwaitingInput whose
  screen tail contains an AwaitingInput marker is left as it is: nothing is executed, the
  registry and the world are the same afterwards. The same holds for a target in state
  HighDemand while the HighDemand text persists: the text on which HighDemand was entered
  holds the HighDemand markers and no AwaitingInput marker, and so does any screen tail
  with the HighDemand markers and no AwaitingInput marker; on either nothing is executed.
  In general, classifying the same input a second time executes nothing.
\<close>

theorem no_duplicate_notification:
  assumes "awaiting_input_in content1"
    and "map_of ts1 pid1 = Some info1" and "state info1 = AwaitingInput"
    and "Set_state HighDemand \<in> set (classify pid0 title0 content2 h0 s0)"
    and "map_of ts2 pid2 = Some info2" and "state info2 = HighDemand"
    and "high_demand_in content3" and "\<not> awaiting_input_in content3"
  shows "classify pid1 title1 content1 h1 AwaitingInput = []
         \<and> classify_target E pid1 title1 content1 h1 (ts1, w1) = (ts1, w1)
         \<and> high_demand_in content2 \<and> \<not> awaiting_input_in content2
         \<and> classify pid2 title2 content2 h2 HighDemand = []
         \<and> classify_target E pid2 title2 content2 h2 (ts2, w2) = (ts2, w2)
         \<and> classify pid3 title3 content3 h3 HighDemand = []
         \<and> classify pid t c h (state_after (classify pid t c h s) s) = []"
proof -
  have a: "classify pid1 title1 content1 h1 AwaitingInput = []"
    using assms(1) awaiting_input_in_nonempty [OF assms(1)] by (simp add: classify_chain)
  have entered: "high_demand_in content2 \<and> \<not> awaiting_input_in content2"
    using assms(4) by (auto simp: classify_chain split: if_splits)
  have b: "classify p x content2 v HighDemand = []" for p x v
    using entered high_demand_in_nonempty [of content2] by (simp add: classify_chain)
  have b3: "classify pid3 title3 content3 h3 HighDemand = []"
    using assms(7,8) high_demand_in_nonempty [OF assms(7)] by (simp add: classify_chain)
  have c: "classify_target E pid1 title1 content1 h1 (ts1, w1) = (ts1, w1)"
    using assms(2,3) a by (simp add: classify_target_def run_actions_Nil)
  have d: "classify_target E pid2 title2 content2 h2 (ts2, w2) = (ts2, w2)"
    using assms(5,6) b by (simp add: classify_target_def run_actions_Nil)
  show ?thesis
    using a entered b b3 c d classify_idempotent by simp
qed

theorem no_duplicate_notification_witness:
  "classify_target example_platform 4242 [] (ascii ''Action Required'') 77
     ([(4242, \<lparr>state = AwaitingInput, hwnd = 77\<rparr>)], example_world)
     = ([(4242, \<lparr>state = AwaitingInput, hwnd = 77\<rparr>)], example_world)
   \<and> Set_state HighDemand \<in> set (classify 4343 [] (ascii ''Keep trying or Stop'') 88 Unknown)
   \<and> classify_target example_platform 4343 [] (ascii ''Keep trying or Stop'') 88
     ([(4343, \<lparr>state = HighDemand, hwnd = 88\<rparr>)], example_world)
     = ([(4343, \<lparr>state = HighDemand, hwnd = 88\<rparr>)], example_world)"
proof -
  have a: "awaiting_input_in (ascii ''Action Required'')"
    by (simp add: awaiting_input_in_def py_in_def ascii_def)
  have b: "map_of [(4242::int, \<lparr>state = AwaitingInput, hwnd = 77\<rparr>)] 4242
             = Some \<lparr>state = AwaitingInput, hwnd = 77\<rparr>"
    by simp
  have c: "state \<lparr>state = AwaitingInput, hwnd = 77\<rparr> = AwaitingInput"
    by simp
  have d: "high_demand_in (ascii ''Keep trying or Stop'')"
    by (simp add: high_demand_in_def py_in_def ascii_def sublist_code)
  have e: "\<not> awaiting_input_in (ascii ''Keep trying or Stop'')"
    by (simp add: awaiting_input_in_def py_in_def ascii_def sublist_code)
  have ne: "ascii ''Keep trying or Stop'' \<noteq> []"
    by (simp add: ascii_def)
  have en: "Set_state HighDemand \<in> set (classify 4343 [] (ascii ''Keep trying or Stop'') 88 Unknown)"
    using d e ne by (simp add: classify_chain)
  have f: "map_of [(4343::int, \<lparr>state = HighDemand, hwnd = 88\<rparr>)] 4343
             = Some \<lparr>state = HighDemand, hwnd = 88\<rparr>"
    by simp
  have g: "state \<lparr>state = HighDemand, hwnd = 88\<rparr> = HighDemand"
    by simp
  show ?thesis
    using en no_duplicate_notification [OF a b c en f g d e,
        where ?title1.0 = "[]" and ?h1.0 = 77 and E = example_platform and ?w1.0 = example_world
          and ?title2.0 = "[]" and ?h2.0 = 88 and ?w2.0 = example_world]
    by simp
qed

section \<open>One rule per classification\<close>

text \<open>
  C10. One classification of one target executes the statements of at most one rule: at
  most one assignment to the state and at most one call of \<open>show_notification\<close>; and where
  a notification is raised, the same branch assigns the state, to a value other than the
  one the target had. Run on the registry, the branch makes at most one call of the
  notification library.
\<close>

theorem at_most_one_rule_fires:
  assumes "acts = classify pid title content h last_state"
  shows "length (state_writes acts) \<le> 1
         \<and> length (notifications acts) \<le> 1
         \<and> (notifications acts \<noteq> [] \<longrightarrow>
              length (state_writes acts) = 1 \<and> state_after acts last_state \<noteq> last_state)
         \<and> length (notify_calls (snd (run_actions E pid acts (ts, w)))) \<le> Suc (length (notify_calls w))"
proof -
  have shape: "acts = [] \<or> (\<exists>s. acts = [Set_state s])
               \<or> (\<exists>t m s. acts = [Show_notification t m h, Set_state s] \<and> s \<noteq> last_state)"
    unfolding assms by (auto simp: classify_chain)
  have calls: "length (notify_calls (show_notification E t m x w)) \<le> Suc (length (notify_calls w))"
    for t m x
    by (simp add: show_notification_def log_def Let_def split: option.splits)
  from shape show ?thesis
  proof (elim disjE exE conjE)
    assume "acts = []"
    then show ?thesis
      by (simp add: state_writes_def notifications_def run_actions_Nil)
  next
    fix s assume "acts = [Set_state s]"
    then show ?thesis
      by (simp add: state_writes_def notifications_def run_actions_Cons run_actions_Nil)
  next
    fix t m s assume "acts = [Show_notification t m h, Set_state s]" and "s \<noteq> last_state"
    then show ?thesis
      using calls [of t m "Some h"]
      by (simp add: state_writes_def notifications_def state_after_Cons run_actions_Cons
          run_actions_Nil)
  qed
qed

theorem at_most_one_rule_fires_witness:
  "notifications (classify 4242 [] (ascii ''Action Required'') 77 Working) \<noteq> []
   \<and> length (notifications (classify 4242 [] (ascii ''Action Required'') 77 Working)) \<le> 1
   \<and> length (state_writes (classify 4242 [] (ascii ''Action Required'') 77 Working)) = 1
   \<and> state_after (classify 4242 [] (ascii ''Action Required'') 77 Working) Working \<noteq> Working"
proof -
  have a: "awaiting_input_in (ascii ''Action Required'')"
    by (simp add: awaiting_input_in_def py_in_def ascii_def)
  have b: "notifications (classify 4242 [] (ascii ''Action Required'') 77 Working) \<noteq> []"
    using a by (simp add: classify_chain notifications_def ascii_def)
  show ?thesis
    using b at_most_one_rule_fires [OF refl, of 4242 "[]" "ascii ''Action Required''" 77 Working
        example_platform "[]" example_world]
    by simp
qed

section \<open>An unreadable screen buffer\<close>

text \<open>
  C3, as stated, fails: with empty content no title rule is evaluated. The console of
  process 4242 can be attached to, its title carries the Working marker, and its screen
  buffer cannot be read; the target, in state Unknown, stays in state Unknown.
\<close>

theorem title_only_fallback_counterexample:
  "buffer_read_failure working_console
   \<and> fst (read_console_buffer example_consoles 4242 example_process)
       = Inr (Some (10022 # ascii '' Working'', [], 77))
   \<and> working_in (10022 # ascii '' Working'')
   \<and> map_option state (map_of (fst (check_target example_platform 4242
        ([(4242, \<lparr>state = Unknown, hwnd = 77\<rparr>)], example_world))) 4242) = Some Unknown"
proof -
  have k: "example_consoles 4242 = Some working_console"
    by (simp add: example_consoles_def)
  have rc: "read_content working_console = Inr []"
    by (simp add: read_content_def working_console_def)
  have rd: "read_console_buffer example_consoles 4242 example_process =
          (Inr (Some (10022 # ascii '' Working'', [], 77)),
           example_process\<lparr>attached := Some Original, sys_stdout := Some Original,
             sys_stderr := Some Original\<rparr>)"
    by (simp add: read_console_buffer_console [where k = example_consoles and pid = 4242, OF k] rc) (simp add: working_console_def)
  have w: "working_in (10022 # ascii '' Working'')"
    by (simp add: working_in_def py_in_def ascii_def sublist_Cons_right)
  have f: "buffer_read_failure working_console"
    by (simp add: buffer_read_failure_def working_console_def)
  have c: "classify 4242 (10022 # ascii '' Working'') [] 77 Unknown = []"
    by (simp add: classify_def)
  show ?thesis
    using f w rd c
    by (simp add: check_target_def example_platform_def example_world_def classify_target_def
        run_actions_Nil)
qed

text \<open>
  C3, amended. When the attach succeeds and the screen buffer cannot be read, the content
  is empty and the target is not classified in that pass: whatever the title, no rule is
  evaluated, the registry is unchanged, nothing is printed and no notification is raised;
  only the console of the watchdog is restored.
\<close>

theorem unreadable_buffer_skips_classification:
  assumes "consoles E pid = Some info" and "buffer_read_failure info"
    and "map_of ts pid = Some t"
  shows "fst (read_console_buffer (consoles E) pid (proc w))
           = Inr (Some (title_value info, [], console_window info))
         \<and> classify pid (title_value info) [] (console_window info) last_state = []
         \<and> check_target E pid (ts, w) =
             (ts, w\<lparr>proc := (proc w)\<lparr>attached := Some Original, sys_stdout := Some Original,
                                      sys_stderr := Some Original\<rparr>\<rparr>)"
proof -
  have rc: "read_content info = Inr []"
    using assms(2)
    by (auto simp: buffer_read_failure_def read_content_def ReadConsoleOutputCharacterW_def Let_def
        split: option.splits)
  have rd: "read_console_buffer (consoles E) pid (proc w) =
          (Inr (Some (title_value info, [], console_window info)),
           (proc w)\<lparr>attached := Some Original, sys_stdout := Some Original,
             sys_stderr := Some Original\<rparr>)"
    by (simp add: read_console_buffer_console [where k = "consoles E" and pid = pid, OF assms(1)] rc)
  have c: "classify pid (title_value info) [] (console_window info) x = []" for x
    by (simp add: classify_def)
  have "check_target E pid (ts, w) =
          (ts, w\<lparr>proc := (proc w)\<lparr>attached := Some Original, sys_stdout := Some Original,
                                   sys_stderr := Some Original\<rparr>\<rparr>)"
    using rd c assms(3) by (simp add: check_target_def classify_target_def run_actions_Nil)
  then show ?thesis
    using rd c by simp
qed

theorem unreadable_buffer_skips_classification_witness:
  "buffer_read_failure working_console
   \<and> check_target example_platform 4242 ([(4242, \<lparr>state = Unknown, hwnd = 77\<rparr>)], example_world)
       = ([(4242, \<lparr>state = Unknown, hwnd = 77\<rparr>)], example_world)"
proof -
  have k: "consoles example_platform 4242 = Some working_console"
    by (simp add: example_platform_def example_consoles_def)
  have f: "buffer_read_failure working_console"
    by (simp add: buffer_read_failure_def working_console_def)
  have t: "map_of [(4242::int, \<lparr>state = Unknown, hwnd = 77\<rparr>)] 4242
             = Some \<lparr>state = Unknown, hwnd = 77\<rparr>"
    by simp
  show ?thesis
    using f unreadable_buffer_skips_classification [OF k f t, where w = example_world and last_state = Unknown]
    by (simp add: example_world_def example_process_def)
qed

section \<open>show_notification\<close>

text \<open>
  C7, as stated, fails: the event is not logged when the window is focused. With window 77
  in the foreground and not minimised, a notification for window 77 leaves the world as it
  was: nothing is printed.
\<close>

theorem logged_regardless_counterexample:
  "is_window_active example_platform (Some 77)
   \<and> printed (show_notification example_platform (ascii ''Gemini CLI'') (msg_finished 4242)
       (Some 77) example_world) = []"
proof -
  have a: "is_window_active example_platform (Some 77)"
    by (simp add: is_window_active_def truthy_def example_platform_def)
  show ?thesis
    using a by (simp add: show_notification_def truthy_def example_world_def)
qed

text \<open>
  C7, amended. For every call: if the window is focused, \<open>show_notification\<close> does
  nothing, no line is printed and the notification library is not called. Otherwise it
  prints the event and then calls the library once with the title, the message, the
  application name Gemini CLI and a timeout of 5; an exception of the library adds a line
  to the log and goes no further.
\<close>

theorem show_notification_focus:
  "(is_window_active E h \<longrightarrow> show_notification E title message h w = w)
   \<and> (\<not> is_window_active E h \<longrightarrow>
        notify_calls (show_notification E title message h w)
          = notify_calls w @ [(title, message, ascii ''Gemini CLI'', 5)]
        \<and> printed (show_notification E title message h w)
          = printed w @ [ascii ''NOTIFICATION: '' @ title @ ascii '' - '' @ message]
            @ (case notify_raises E title message of
                 None \<Rightarrow> []
               | Some e \<Rightarrow> [ascii ''Notification Failed: '' @ e])
        \<and> proc (show_notification E title message h w) = proc w)"
proof (cases "is_window_active E h")
  case True
  then have "truthy h"
    by (auto simp: is_window_active_def truthy_def split: option.splits if_splits)
  with True show ?thesis
    by (simp add: show_notification_def)
next
  case False
  then show ?thesis
    by (simp add: show_notification_def log_def Let_def split: option.splits)
qed

theorem show_notification_focus_witness:
  "is_window_active example_platform (Some 77)
   \<and> \<not> is_window_active example_platform (Some 78)
   \<and> show_notification example_platform (ascii ''Gemini CLI'') (ascii ''done'') (Some 77) example_world
       = example_world
   \<and> notify_calls (show_notification example_platform (ascii ''Gemini CLI'') (ascii ''done'') (Some 78)
       example_world) = [(ascii ''Gemini CLI'', ascii ''done'', ascii ''Gemini CLI'', 5)]
   \<and> printed (show_notification example_platform (ascii ''Gemini CLI'') (ascii ''done'') (Some 78)
       example_world) = [ascii ''NOTIFICATION: Gemini CLI - done'']"
proof -
  have a: "is_window_active example_platform (Some 77)"
    by (simp add: is_window_active_def example_platform_def)
  have b: "\<not> is_window_active example_platform (Some 78)"
    by (simp add: is_window_active_def example_platform_def ascii_lower_def
        py_in_def ascii_def sublist_code)
  have c: "notify_raises example_platform (ascii ''Gemini CLI'') (ascii ''done'') = None"
    by (simp add: example_platform_def)
  show ?thesis
    using a b c
      show_notification_focus [of example_platform "Some 77" "ascii ''Gemini CLI''" "ascii ''done''"
        example_world]
      show_notification_focus [of example_platform "Some 78" "ascii ''Gemini CLI''" "ascii ''done''"
        example_world]
    by (simp add: example_world_def ascii_def)
qed

section \<open>Discovery\<close>

lemma read_content_shell_console: "read_content shell_console = Inr (ascii ''gemini    '')"
proof -
  have "ReadConsoleOutputCharacterW shell_console 10 read_len \<lparr>X = 0, Y = 0\<rparr>
          = Some (ascii ''gemini    '')"
    by (simp add: ReadConsoleOutputCharacterW_def shell_console_def read_len_def ascii_def)
  moreover have "buffer_value (ascii ''gemini    '') = ascii ''gemini    ''"
    by (simp add: buffer_value_def ascii_def)
  ultimately show ?thesis
    by (simp add: read_content_def shell_console_def start_idx_def read_len_def
        buffer_value_padding [unfolded read_len_def])
qed

lemma discover_candidate_read:
  assumes "pid \<noteq> getpid E"
    and "read_console_buffer (consoles E) pid (proc w) = (Inr (Some (title, content, h)), p)"
  shows "discover_candidate E pid (ts, tracked, w) =
           (if is_gemini_title E title \<and> (h = 0 \<or> h \<notin> tracked)
            then (AList.update pid \<lparr>state = Unknown, hwnd = h\<rparr> ts, insert h tracked, w\<lparr>proc := p\<rparr>)
            else (ts, tracked, w\<lparr>proc := p\<rparr>))"
  using assms by (auto simp: discover_candidate_def)

lemma discover_candidate_no_read:
  assumes "\<nexists>r. fst (read_console_buffer (consoles E) pid (proc w)) = Inr (Some r)"
  shows "fst (discover_candidate E pid (ts, tracked, w)) = ts"
  using assms
  by (auto simp: discover_candidate_def split: prod.splits sum.splits option.splits)

text \<open>
  C4, as stated, fails: the screen content is read and never consulted. Process 4343 has a
  console titled cmd whose screen shows the word gemini, and its window is not tracked; it
  is not promoted.
\<close>

theorem content_marker_counterexample:
  "fst (read_console_buffer example_consoles 4343 example_process)
     = Inr (Some (ascii ''cmd'', ascii ''gemini    '', 88))
   \<and> py_in (ascii ''gemini'') (ascii ''gemini    '')
   \<and> 88 \<notin> tracked_hwnds []
   \<and> fst (discover example_platform [4343] ([], example_world)) = []"
proof -
  have k: "example_consoles 4343 = Some shell_console"
    by (simp add: example_consoles_def)
  have rd: "read_console_buffer example_consoles 4343 example_process =
              (Inr (Some (ascii ''cmd'', ascii ''gemini    '', 88)), example_process)"
    by (simp add: read_console_buffer_console [where k = example_consoles and pid = 4343, OF k]
        read_content_shell_console)
       (simp add: shell_console_def example_process_def)
  have m: "py_in (ascii ''gemini'') (ascii ''gemini    '')"
    by (simp add: py_in_def ascii_def)
  have g: "\<not> is_gemini_title example_platform (ascii ''cmd'')"
    by (simp add: is_gemini_title_def example_platform_def ascii_lower_def py_in_def ascii_def
        sublist_code)
  have "discover_candidate example_platform 4343 ([], {}, example_world) = ([], {}, example_world)"
    using rd g
    by (simp add: discover_candidate_def example_platform_def example_world_def)
  then show ?thesis
    using rd m by (simp add: discover_def tracked_hwnds_def)
qed

text \<open>
  C4, amended. A candidate other than the watchdog itself and not yet in the registry is
  promoted exactly when the read of its console returns a result, a CLI marker is present
  in the console title, and its console handle is zero or not already tracked. The screen
  content plays no part: a marker that appears only there does not promote the candidate.
\<close>

theorem promoted_iff_title_marker:
  assumes "pid \<noteq> getpid E" and "map_of ts pid = None"
  shows "map_of (fst (discover_candidate E pid (ts, tracked, w))) pid \<noteq> None \<longleftrightarrow>
           (\<exists>title content h.
              fst (read_console_buffer (consoles E) pid (proc w)) = Inr (Some (title, content, h))
              \<and> is_gemini_title E title \<and> (h = 0 \<or> h \<notin> tracked))"
proof (cases "\<exists>r. fst (read_console_buffer (consoles E) pid (proc w)) = Inr (Some r)")
  case True
  then obtain title content h p where
    rd: "read_console_buffer (consoles E) pid (proc w) = (Inr (Some (title, content, h)), p)"
    by (metis prod.collapse)
  show ?thesis
    using assms(2) rd by (simp add: discover_candidate_read [OF assms(1) rd] update_conv')
next
  case False
  then have "fst (discover_candidate E pid (ts, tracked, w)) = ts"
    by (rule discover_candidate_no_read)
  with False assms(2) show ?thesis
    by auto
qed

theorem promoted_iff_title_marker_witness:
  "4242 \<noteq> getpid example_platform
   \<and> is_gemini_title example_platform (10022 # ascii '' Working'')
   \<and> map_of (fst (discover_candidate example_platform 4242 ([], {}, example_world))) 4242 \<noteq> None"
proof -
  have a: "4242 \<noteq> getpid example_platform"
    by (simp add: example_platform_def)
  have b: "map_of ([] :: targets) 4242 = None"
    by simp
  have k: "example_consoles 4242 = Some working_console"
    by (simp add: example_consoles_def)
  have rc: "read_content working_console = Inr []"
    by (simp add: read_content_def working_console_def)
  have rd: "fst (read_console_buffer (consoles example_platform) 4242 (proc example_world))
              = Inr (Some (10022 # ascii '' Working'', [], 77))"
    by (simp add: example_platform_def
        read_console_buffer_console [where k = example_consoles and pid = 4242, OF k] rc)
       (simp add: working_console_def)
  have g: "is_gemini_title example_platform (10022 # ascii '' Working'')"
    by (simp add: is_gemini_title_def example_platform_def py_in_def)
  show ?thesis
    using a g rd promoted_iff_title_marker [OF a b, of "{}" example_world]
    by simp
qed

text \<open>
  C9. The set of tracked handles computed before discovery never holds the zero handle,
  and the duplicate test is skipped for a candidate whose read yields the zero handle:
  such a candidate is promoted on its title whatever is tracked. Two distinct candidates
  without a console window are both promoted in one pass and stand side by side in the
  registry with handle zero.
\<close>

theorem absent_handles_coexist:
  assumes "consoles E p = Some ip" and "consoles E q = Some iq"
    and "p \<noteq> q" and "p \<noteq> getpid E" and "q \<noteq> getpid E"
    and "console_window ip = 0" and "console_window iq = 0"
    and "is_gemini_title E (title_value ip)" and "is_gemini_title E (title_value iq)"
    and "read_content ip = Inr cp" and "read_content iq = Inr cq"
  shows "0 \<notin> tracked_hwnds ts
         \<and> fst (discover_candidate E p (ts, tracked, w)) = AList.update p \<lparr>state = Unknown, hwnd = 0\<rparr> ts
         \<and> map_of (fst (discover E [p, q] (ts, w))) p = Some \<lparr>state = Unknown, hwnd = 0\<rparr>
         \<and> map_of (fst (discover E [p, q] (ts, w))) q = Some \<lparr>state = Unknown, hwnd = 0\<rparr>"
proof -
  let ?restored = "\<lambda>x. x\<lparr>attached := Some Original, sys_stdout := Some Original,
                         sys_stderr := Some Original\<rparr>"
  have zero: "0 \<notin> tracked_hwnds ts"
    by (simp add: tracked_hwnds_def)
  have rp: "read_console_buffer (consoles E) p (proc x) =
              (Inr (Some (title_value ip, cp, 0)), ?restored (proc x))" for x
    using assms(6,10)
    by (simp add: read_console_buffer_console [where k = "consoles E" and pid = p, OF assms(1)])
  have rq: "read_console_buffer (consoles E) q (proc x) =
              (Inr (Some (title_value iq, cq, 0)), ?restored (proc x))" for x
    using assms(7,11)
    by (simp add: read_console_buffer_console [where k = "consoles E" and pid = q, OF assms(2)])
  have sp: "discover_candidate E p (us, tr, x) =
              (AList.update p \<lparr>state = Unknown, hwnd = 0\<rparr> us, insert 0 tr,
               x\<lparr>proc := ?restored (proc x)\<rparr>)" for us tr x
    using assms(8) by (simp add: discover_candidate_read [OF assms(4) rp])
  have sq: "discover_candidate E q (us, tr, x) =
              (AList.update q \<lparr>state = Unknown, hwnd = 0\<rparr> us, insert 0 tr,
               x\<lparr>proc := ?restored (proc x)\<rparr>)" for us tr x
    using assms(9) by (simp add: discover_candidate_read [OF assms(5) rq])
  have both: "fst (discover E [p, q] (ts, w)) =
                AList.update q \<lparr>state = Unknown, hwnd = 0\<rparr>
                  (AList.update p \<lparr>state = Unknown, hwnd = 0\<rparr> ts)"
    by (simp add: discover_def sp sq)
  show ?thesis
    using zero assms(3) by (simp add: sp both update_conv')
qed

theorem absent_handles_coexist_witness:
  "console_window windowless_console = 0
   \<and> is_gemini_title example_platform (title_value windowless_console)
   \<and> map_of (fst (discover example_platform [4545, 4546] ([], example_world))) 4545
       = Some \<lparr>state = Unknown, hwnd = 0\<rparr>
   \<and> map_of (fst (discover example_platform [4545, 4546] ([], example_world))) 4546
       = Some \<lparr>state = Unknown, hwnd = 0\<rparr>"
proof -
  have kp: "consoles example_platform 4545 = Some windowless_console"
    by (simp add: example_platform_def example_consoles_def)
  have kq: "consoles example_platform 4546 = Some windowless_console"
    by (simp add: example_platform_def example_consoles_def)
  have ne: "(4545::int) \<noteq> 4546"
    by simp
  have np: "4545 \<noteq> getpid example_platform"
    by (simp add: example_platform_def)
  have nq: "4546 \<noteq> getpid example_platform"
    by (simp add: example_platform_def)
  have w0: "console_window windowless_console = 0"
    by (simp add: windowless_console_def)
  have g: "is_gemini_title example_platform (title_value windowless_console)"
    by (simp add: is_gemini_title_def example_platform_def windowless_console_def ascii_lower_def
        py_in_def ascii_def)
  have rc: "read_content windowless_console = Inr []"
    by (simp add: read_content_def windowless_console_def)
  show ?thesis
    using w0 g
      absent_handles_coexist [OF kp kq ne np nq w0 w0 g g rc rc, of "[]" "{}" example_world]
    by simp
qed

section \<open>The screen tail\<close>

lemma sint_c_short: "- 32768 \<le> v \<Longrightarrow> v < 32768 \<Longrightarrow> sint (word_of_int v :: 16 word) = v"
  by (simp add: sint_sbintrunc' signed_take_bit_int_eq_self_iff)

lemma c_short_upper: "sint (v :: 16 word) < 32768"
  using sint_lt [of v] by simp

lemma start_idx_bounds:
  assumes "0 < width" and "height < 32768"
  shows "0 \<le> start_idx width height"
    and "0 \<le> start_idx width height mod width"
    and "start_idx width height mod width < width"
    and "0 \<le> start_idx width height div width"
    and "start_idx width height div width < 32768"
proof -
  show nonneg: "0 \<le> start_idx width height"
    by (simp add: start_idx_def)
  show "0 \<le> start_idx width height mod width"
    using assms(1) by simp
  show "start_idx width height mod width < width"
    using assms(1) by simp
  show "0 \<le> start_idx width height div width"
    using assms(1) nonneg by (simp add: pos_imp_zdiv_nonneg_iff)
  have "width * height \<le> width * 32767"
    using assms by (intro mult_left_mono) auto
  then have "start_idx width height \<le> width * 32767"
    using assms(1) unfolding start_idx_def by arith
  then have "start_idx width height div width \<le> (width * 32767) div width"
    using assms(1) by (intro zdiv_mono1) auto
  then show "start_idx width height div width < 32768"
    using assms(1) by simp
qed

lemma nat_start_idx:
  "nat (start_idx width height) = nat (width * height) - read_len"
  unfolding start_idx_def read_len_def by arith

text \<open>
  C8. The read starts at the linear offset \<open>max 0 (width * height - 8000)\<close>, which is
  turned into the row \<open>offset div width\<close> and the column \<open>offset mod width\<close>; for a width
  above zero, row times width plus column is the offset again, and both fit the 16-bit
  fields of the coordinate unchanged, so that the read starts at the cell with that index.
  On a screen buffer of \<open>width * height\<close> character cells, none of them NUL, whose read
  succeeds, the content returned is then the last at most 8000 of them.
\<close>

theorem screen_tail_origin:
  assumes "screen_buffer_info info = Some csbi"
    and "width = sint (X (dwSize csbi))" and "height = sint (Y (dwSize csbi))"
    and "0 < width"
    and "read_succeeds info"
    and "length (cells info) = nat (width * height)"
    and "0 \<notin> set (cells info)"
  shows "start_idx width height = max 0 (width * height - 8000)
         \<and> (start_idx width height div width) * width + start_idx width height mod width
             = start_idx width height
         \<and> sint (word_of_int (start_idx width height div width) :: 16 word)
             = start_idx width height div width
         \<and> sint (word_of_int (start_idx width height mod width) :: 16 word)
             = start_idx width height mod width
         \<and> ReadConsoleOutputCharacterW info width read_len
               \<lparr>X = word_of_int (start_idx width height mod width),
                Y = word_of_int (start_idx width height div width)\<rparr>
             = Some (drop (nat (start_idx width height)) (cells info))
         \<and> read_content info = Inr (drop (length (cells info) - 8000) (cells info))
         \<and> length (drop (length (cells info) - 8000) (cells info)) \<le> 8000"
proof -
  let ?si = "start_idx width height"
  have h: "height < 32768"
    unfolding assms(3) by (rule c_short_upper)
  note b = start_idx_bounds [OF assms(4) h]
  have w: "width < 32768"
    unfolding assms(2) by (rule c_short_upper)
  have idx: "?si = max 0 (width * height - 8000)"
    by (simp add: start_idx_def read_len_def)
  have again: "(?si div width) * width + ?si mod width = ?si"
    by simp
  have row: "sint (word_of_int (?si div width) :: 16 word) = ?si div width"
    using b(4,5) by (intro sint_c_short) auto
  have col: "sint (word_of_int (?si mod width) :: 16 word) = ?si mod width"
    using b(2,3) w by (intro sint_c_short) auto
  have len: "length (drop (nat ?si) (cells info)) \<le> read_len"
    by (simp add: assms(6) nat_start_idx)
  have rd: "ReadConsoleOutputCharacterW info width read_len
              \<lparr>X = word_of_int (?si mod width), Y = word_of_int (?si div width)\<rparr>
            = Some (drop (nat ?si) (cells info))"
    using assms(5) b(2,4) len
    by (simp add: ReadConsoleOutputCharacterW_def row col)
  have nonul: "0 \<notin> set (drop (nat ?si) (cells info))"
    using assms(7) by (meson in_set_dropD)
  have "read_content info = Inr (drop (nat ?si) (cells info))"
    using assms(1,4) rd
    by (simp add: read_content_def assms(2)[symmetric] assms(3)[symmetric] Let_def
        buffer_value_padding buffer_value_no_nul [OF nonul] del: length_drop)
  then have content: "read_content info = Inr (drop (length (cells info) - 8000) (cells info))"
    by (simp add: nat_start_idx assms(6) read_len_def)
  show ?thesis
    using idx again row col rd content by simp
qed

theorem screen_tail_origin_witness:
  "start_idx 100 90 = 1000
   \<and> start_idx 100 90 div 100 = 10 \<and> start_idx 100 90 mod 100 = 0
   \<and> read_content full_console = Inr (replicate 8000 32)"
proof -
  have a: "screen_buffer_info full_console = Some \<lparr>dwSize = \<lparr>X = 100, Y = 90\<rparr>\<rparr>"
    by (simp add: full_console_def)
  have b: "(100::int) = sint (X (dwSize \<lparr>dwSize = \<lparr>X = 100, Y = 90\<rparr>\<rparr>))"
    by simp
  have c: "(90::int) = sint (Y (dwSize \<lparr>dwSize = \<lparr>X = 100, Y = 90\<rparr>\<rparr>))"
    by simp
  have d: "(0::int) < 100"
    by simp
  have e: "read_succeeds full_console"
    by (simp add: full_console_def)
  have f: "length (cells full_console) = nat (100 * 90)"
    by (simp add: full_console_def)
  have g: "0 \<notin> set (cells full_console)"
    by (simp add: full_console_def)
  show ?thesis
    using screen_tail_origin [OF a b c d e f g]
    by (simp add: full_console_def)
qed

section \<open>Leaving read_console_buffer\<close>

lemma read_console_buffer_restores:
  assumes "fst (read_console_buffer k pid p) = Inr r"
  shows "attached (snd (read_console_buffer k pid p)) = Some Original"
proof (cases "k pid")
  case None
  show ?thesis
  proof (cases "pid = - 1")
    case True
    with None assms show ?thesis
      by (simp add: read_console_buffer_def FreeConsole_def AttachConsole_def)
  next
    case False
    then show ?thesis
      by (simp add: read_console_buffer_no_console [where k = k and pid = pid, OF None])
  qed
next
  case (Some info)
  with assms show ?thesis
    by (simp add: read_console_buffer_console [where k = k and pid = pid, OF Some]
        split: sum.splits)
qed

text \<open>
  C2. Both returns of \<open>read_console_buffer\<close> restore the console (the lemma above), the
  one after a failed attach included. The exit by exception does not: when the console
  reports a screen buffer zero columns wide, \<open>start_idx // width\<close> raises
  \<open>ZeroDivisionError\<close> before the console is freed and the original one attached again, and
  the call leaves the watchdog attached to the console of process 4444.
\<close>

theorem zero_width_leaves_target_console:
  "fst (read_console_buffer example_consoles 4444 example_process) = Inl ZeroDivisionError
   \<and> attached (snd (read_console_buffer example_consoles 4444 example_process))
       = Some (Console_of 4444)
   \<and> attached (snd (read_console_buffer example_consoles 4444 example_process)) \<noteq> Some Original"
proof -
  have k: "example_consoles 4444 = Some zero_width_console"
    by (simp add: example_consoles_def)
  have rc: "read_content zero_width_console = Inl ZeroDivisionError"
    by (simp add: read_content_def zero_width_console_def)
  show ?thesis
    by (simp add: read_console_buffer_console [where k = example_consoles and pid = 4444, OF k] rc)
qed

end
